theory Spec2Isabelle
  imports Complex_Main
begin

section \<open>Session registry (src/security.py, class SessionManager)\<close>

text \<open>
  A session is the dictionary that \<open>create_session\<close> builds, with its three keys.
  Timestamps are the values of \<open>time.time()\<close>, taken here as exact real numbers of
  seconds; \<open>lifetime\<close> is a Python \<open>int\<close>. The registry \<open>self.sessions\<close> is a
  dictionary from session ids to sessions.
\<close>

record session =
  client_id :: string
  created_at :: real
  last_accessed :: real

record SessionManager =
  secret_key :: string
  lifetime :: int
  sessions :: "string \<rightharpoonup> session"

text \<open>\<open>SessionManager.__init__\<close>: an empty registry.\<close>

definition SessionManager_init :: "string \<Rightarrow> int \<Rightarrow> SessionManager" where
  "SessionManager_init key life =
     \<lparr>secret_key = key, lifetime = life, sessions = Map.empty\<rparr>"

text \<open>
  \<open>create_session\<close>. The token drawn by \<open>secrets.token_urlsafe(32)\<close> is the argument
  \<open>session_id\<close>; the two readings of the clock, one for each timestamp, are \<open>t_created\<close>
  and \<open>t_accessed\<close>. The assignment overwrites an entry that has the same id.
\<close>

definition create_session ::
  "SessionManager \<Rightarrow> string \<Rightarrow> string \<Rightarrow> real \<Rightarrow> real \<Rightarrow> string \<times> SessionManager" where
  "create_session m session_id cid t_created t_accessed =
     (session_id,
      m\<lparr>sessions := (sessions m)(session_id \<mapsto>
           \<lparr>client_id = cid, created_at = t_created, last_accessed = t_accessed\<rparr>)\<rparr>)"

text \<open>
  \<open>validate_session\<close>, with the reading of the clock as \<open>current_time\<close>. The result is
  the returned boolean and the registry after the call.
\<close>

definition validate_session ::
  "SessionManager \<Rightarrow> string \<Rightarrow> real \<Rightarrow> bool \<times> SessionManager" where
  "validate_session m session_id current_time =
     (case sessions m session_id of
        None \<Rightarrow> (False, m)
      | Some sess \<Rightarrow>
          if current_time - created_at sess > of_int (lifetime m)
          then (False, m\<lparr>sessions := (sessions m)(session_id := None)\<rparr>)
          else (True, m\<lparr>sessions := (sessions m)(session_id \<mapsto>
                  sess\<lparr>last_accessed := current_time\<rparr>)\<rparr>))"

text \<open>\<open>end_session\<close>.\<close>

definition end_session :: "SessionManager \<Rightarrow> string \<Rightarrow> SessionManager" where
  "end_session m session_id =
     (if session_id \<in> dom (sessions m)
      then m\<lparr>sessions := (sessions m)(session_id := None)\<rparr> else m)"

text \<open>A run of \<open>validate_session\<close> calls, each with its id and its reading of the clock.\<close>

fun validate_all :: "SessionManager \<Rightarrow> (string \<times> real) list \<Rightarrow> SessionManager" where
  "validate_all m [] = m"
| "validate_all m ((sid, t) # calls) = validate_all (snd (validate_session m sid t)) calls"

text \<open>The manager the application builds: \<open>SESSION_LIFETIME = 3600\<close>.\<close>

definition example_manager :: SessionManager where
  "example_manager = SessionManager_init ''k'' 3600"

section \<open>Python values, exceptions and JSON\<close>

text \<open>
  The exceptions the code tells apart: \<open>HTTPException\<close> with its status code and detail,
  and any other instance of \<open>Exception\<close> with its \<open>str()\<close>.
\<close>

datatype py_exc = HTTPException int string | Exception string

text \<open>
  The values that the cache and the report endpoint handle are typed \<open>Any\<close>. The model
  has the values of \<open>None\<close>, \<open>bool\<close>, \<open>int\<close>, \<open>str\<close>, \<open>list\<close>, \<open>tuple\<close>, of
  dictionaries with string keys (an association list in insertion order), and objects of
  other classes, which \<open>json.dumps\<close> refuses. \<open>truthy\<close> is Python's truth value.
\<close>

datatype pyval =
    PNone
  | PBool bool
  | PInt int
  | PStr string
  | PList "pyval list"
  | PTuple "pyval list"
  | PDict "(string \<times> pyval) list"
  | PObject nat

fun truthy :: "pyval \<Rightarrow> bool" where
  "truthy PNone = False"
| "truthy (PBool b) = b"
| "truthy (PInt n) = (n \<noteq> 0)"
| "truthy (PStr s) = (s \<noteq> [])"
| "truthy (PList xs) = (xs \<noteq> [])"
| "truthy (PTuple xs) = (xs \<noteq> [])"
| "truthy (PDict kvs) = (kvs \<noteq> [])"
| "truthy (PObject n) = True"

text \<open>
  A JSON text is identified with the document it denotes. A byte string is either such a
  text or some other bytes, the empty string among them: that is all that \<open>if value:\<close>
  and \<open>json.loads\<close> see of it.
\<close>

datatype json =
    JNull
  | JBool bool
  | JInt int
  | JStr string
  | JArr "json list"
  | JObj "(string \<times> json) list"

datatype bytes = Json_text json | Other_bytes string

fun bytes_truthy :: "bytes \<Rightarrow> bool" where
  "bytes_truthy (Json_text j) = True"
| "bytes_truthy (Other_bytes s) = (s \<noteq> [])"

text \<open>Python's \<open>d[k] = v\<close> on a dictionary, and the dictionary built from a list of items.\<close>

fun dict_set :: "(string \<times> 'a) list \<Rightarrow> string \<Rightarrow> 'a \<Rightarrow> (string \<times> 'a) list" where
  "dict_set [] k v = [(k, v)]"
| "dict_set ((k', v') # d) k v =
     (if k' = k then (k', v) # d else (k', v') # dict_set d k v)"

definition dict_of_items :: "(string \<times> 'a) list \<Rightarrow> (string \<times> 'a) list" where
  "dict_of_items kvs = foldl (\<lambda>d (k, v). dict_set d k v) [] kvs"

definition member_opt :: "string \<times> 'a option \<Rightarrow> (string \<times> 'a) option" where
  "member_opt kv = (case snd kv of None \<Rightarrow> None | Some j \<Rightarrow> Some (fst kv, j))"

text \<open>
  \<open>json.dumps\<close>: a tuple is written as an array, an object of another class raises
  \<open>TypeError\<close>. \<open>json.loads\<close>: an array is read as a list, an object as a dictionary
  (a repeated key keeps its last value), bytes that are no JSON text raise
  \<open>JSONDecodeError\<close>.
\<close>

primrec encode :: "pyval \<Rightarrow> json option" where
  "encode PNone = Some JNull"
| "encode (PBool b) = Some (JBool b)"
| "encode (PInt n) = Some (JInt n)"
| "encode (PStr s) = Some (JStr s)"
| "encode (PList xs) = map_option JArr (those (map encode xs))"
| "encode (PTuple xs) = map_option JArr (those (map encode xs))"
| "encode (PDict kvs) =
     map_option JObj (those (map member_opt (map (map_prod id encode) kvs)))"
| "encode (PObject n) = None"

primrec decode :: "json \<Rightarrow> pyval" where
  "decode JNull = PNone"
| "decode (JBool b) = PBool b"
| "decode (JInt n) = PInt n"
| "decode (JStr s) = PStr s"
| "decode (JArr js) = PList (map decode js)"
| "decode (JObj kvs) = PDict (dict_of_items (map (map_prod id decode) kvs))"

definition json_dumps :: "pyval \<Rightarrow> py_exc + bytes" where
  "json_dumps v =
     (case encode v of
        None \<Rightarrow> Inl (Exception ''TypeError: Object is not JSON serializable'')
      | Some j \<Rightarrow> Inr (Json_text j))"

fun json_loads :: "bytes \<Rightarrow> py_exc + pyval" where
  "json_loads (Json_text j) = Inr (decode j)"
| "json_loads (Other_bytes s) = Inl (Exception ''JSONDecodeError'')"

section \<open>Configuration (src/config.py)\<close>

text \<open>
  The resolved values of \<open>Config\<close> that the core reads, \<open>ALLOWED_HOSTS\<close> being
  \<open>config.security.ALLOWED_HOSTS\<close>. \<open>default_config\<close> has the values that
  \<open>Config.__init__\<close> takes when the environment sets none of them.
\<close>

record Config =
  cache_enabled :: bool
  cache_ttl :: int
  max_request_size :: int
  session_lifetime :: int
  ALLOWED_HOSTS :: "string list"

definition default_config :: Config where
  "default_config =
     \<lparr>cache_enabled = True, cache_ttl = 3600, max_request_size = 1024 * 1024,
      session_lifetime = 3600,
      ALLOWED_HOSTS = [''localhost'', ''127.0.0.1'', ''testserver'']\<rparr>"

definition is_allowed_host :: "Config \<Rightarrow> string \<Rightarrow> bool" where
  "is_allowed_host cfg host = (host \<in> set (ALLOWED_HOSTS cfg))"

section \<open>The Redis server behind the client\<close>

text \<open>
  The server is not part of the repository. Its state is whether it answers, and its
  keys, each with a value and the time at which it expires; \<open>key_matches pattern key\<close>
  is the server's glob matching. Every command takes the current time. A command on a
  server that does not answer raises \<open>ConnectionError\<close>; \<open>SETEX\<close> refuses an expiry
  that is not positive.
\<close>

record redis =
  reachable :: bool
  entries :: "(string \<times> bytes \<times> real) list"
  key_matches :: "string \<Rightarrow> string \<Rightarrow> bool"

definition live :: "redis \<Rightarrow> real \<Rightarrow> (string \<times> bytes \<times> real) list" where
  "live r now = filter (\<lambda>(k, v, expiry). now < expiry) (entries r)"

definition connection_error :: py_exc where
  "connection_error = Exception ''ConnectionError''"

definition redis_ping :: "redis \<Rightarrow> py_exc + bool" where
  "redis_ping r = (if reachable r then Inr True else Inl connection_error)"

definition redis_get :: "redis \<Rightarrow> string \<Rightarrow> real \<Rightarrow> py_exc + bytes option" where
  "redis_get r key now =
     (if reachable r then Inr (map_option fst (map_of (live r now) key))
      else Inl connection_error)"

definition redis_setex ::
  "redis \<Rightarrow> string \<Rightarrow> int \<Rightarrow> bytes \<Rightarrow> real \<Rightarrow> py_exc + (bool \<times> redis)" where
  "redis_setex r key ttl v now =
     (if \<not> reachable r then Inl connection_error
      else if ttl \<le> 0 then Inl (Exception ''ResponseError: invalid expire time in setex'')
      else Inr (True,
             r\<lparr>entries := (key, v, now + of_int ttl) #
                            filter (\<lambda>e. fst e \<noteq> key) (entries r)\<rparr>))"

definition redis_delete :: "redis \<Rightarrow> string list \<Rightarrow> real \<Rightarrow> py_exc + (int \<times> redis)" where
  "redis_delete r keys now =
     (if reachable r
      then Inr (int (length (remdups (filter (\<lambda>k. k \<in> set keys) (map fst (live r now))))),
                r\<lparr>entries := filter (\<lambda>e. fst e \<notin> set keys) (entries r)\<rparr>)
      else Inl connection_error)"

definition redis_exists :: "redis \<Rightarrow> string \<Rightarrow> real \<Rightarrow> py_exc + int" where
  "redis_exists r key now =
     (if reachable r then Inr (if key \<in> fst ` set (live r now) then 1 else 0)
      else Inl connection_error)"

definition redis_keys :: "redis \<Rightarrow> string \<Rightarrow> real \<Rightarrow> py_exc + string list" where
  "redis_keys r pattern now =
     (if reachable r
      then Inr (remdups (filter (key_matches r pattern) (map fst (live r now))))
      else Inl connection_error)"

section \<open>Cache store (src/cache.py, class CacheManager)\<close>

record CacheManager =
  config :: Config
  redis_client :: "redis option"

text \<open>
  \<open>CacheManager.__init__\<close>: the client is kept only when the cache is enabled and the
  server answers the ping.
\<close>

definition CacheManager_init :: "Config \<Rightarrow> redis \<Rightarrow> CacheManager" where
  "CacheManager_init cfg server =
     \<lparr>config = cfg,
      redis_client =
        (if cache_enabled cfg
         then (case redis_ping server of Inl e \<Rightarrow> None | Inr ok \<Rightarrow> Some server)
         else None)\<rparr>"

text \<open>
  The five methods. Each result is \<open>Inr\<close> of the returned value, or \<open>Inl\<close> of an
  exception that leaves the method; the \<open>try\<close> block of each method is the inner
  \<open>case\<close>, whose \<open>Inl\<close> branch is the \<open>except Exception\<close> handler. A method that
  writes returns the manager with the server's new state.
\<close>

definition CacheManager_get :: "CacheManager \<Rightarrow> string \<Rightarrow> real \<Rightarrow> py_exc + pyval" where
  "CacheManager_get cm key now =
     (case redis_client cm of
        None \<Rightarrow> Inr PNone
      | Some r \<Rightarrow>
          (case redis_get r key now of
             Inl e \<Rightarrow> Inr PNone
           | Inr None \<Rightarrow> Inr PNone
           | Inr (Some v) \<Rightarrow>
               if bytes_truthy v
               then (case json_loads v of Inl e \<Rightarrow> Inr PNone | Inr x \<Rightarrow> Inr x)
               else Inr PNone))"

text \<open>Python's \<open>ttl or self.config.cache_ttl\<close> on an \<open>Optional[int]\<close>.\<close>

definition ttl_or :: "int option \<Rightarrow> int \<Rightarrow> int" where
  "ttl_or ttl dflt = (case ttl of None \<Rightarrow> dflt | Some t \<Rightarrow> if t = 0 then dflt else t)"

definition CacheManager_set ::
  "CacheManager \<Rightarrow> string \<Rightarrow> pyval \<Rightarrow> int option \<Rightarrow> real \<Rightarrow>
     (py_exc + bool) \<times> CacheManager" where
  "CacheManager_set cm key v ttl now =
     (case redis_client cm of
        None \<Rightarrow> (Inr False, cm)
      | Some r \<Rightarrow>
          (case json_dumps v of
             Inl e \<Rightarrow> (Inr False, cm)
           | Inr serialized_value \<Rightarrow>
               (case redis_setex r key (ttl_or ttl (cache_ttl (config cm)))
                       serialized_value now of
                  Inl e \<Rightarrow> (Inr False, cm)
                | Inr (ok, r') \<Rightarrow> (Inr ok, cm\<lparr>redis_client := Some r'\<rparr>))))"

definition CacheManager_delete ::
  "CacheManager \<Rightarrow> string \<Rightarrow> real \<Rightarrow> (py_exc + bool) \<times> CacheManager" where
  "CacheManager_delete cm key now =
     (case redis_client cm of
        None \<Rightarrow> (Inr False, cm)
      | Some r \<Rightarrow>
          (case redis_delete r [key] now of
             Inl e \<Rightarrow> (Inr False, cm)
           | Inr (n, r') \<Rightarrow> (Inr (n \<noteq> 0), cm\<lparr>redis_client := Some r'\<rparr>)))"

definition CacheManager_exists :: "CacheManager \<Rightarrow> string \<Rightarrow> real \<Rightarrow> py_exc + bool" where
  "CacheManager_exists cm key now =
     (case redis_client cm of
        None \<Rightarrow> Inr False
      | Some r \<Rightarrow>
          (case redis_exists r key now of Inl e \<Rightarrow> Inr False | Inr n \<Rightarrow> Inr (n \<noteq> 0)))"

definition CacheManager_clear_pattern ::
  "CacheManager \<Rightarrow> string \<Rightarrow> real \<Rightarrow> (py_exc + int) \<times> CacheManager" where
  "CacheManager_clear_pattern cm pattern now =
     (case redis_client cm of
        None \<Rightarrow> (Inr 0, cm)
      | Some r \<Rightarrow>
          (case redis_keys r pattern now of
             Inl e \<Rightarrow> (Inr 0, cm)
           | Inr keys \<Rightarrow>
               if keys \<noteq> []
               then (case redis_delete r keys now of
                       Inl e \<Rightarrow> (Inr 0, cm)
                     | Inr (n, r') \<Rightarrow> (Inr n, cm\<lparr>redis_client := Some r'\<rparr>))
               else (Inr 0, cm)))"

definition get_report_cache_key :: string where
  "get_report_cache_key = ''security_report''"

definition get_session_cache_key :: "string \<Rightarrow> string" where
  "get_session_cache_key session_id = ''session:'' @ session_id"

text \<open>Servers and managers for the concrete runs below.\<close>

definition empty_redis :: redis where
  "empty_redis = \<lparr>reachable = True, entries = [], key_matches = (\<lambda>pattern key. pattern = key)\<rparr>"

definition working_cache :: CacheManager where
  "working_cache = CacheManager_init default_config empty_redis"

definition disabled_cache :: CacheManager where
  "disabled_cache = CacheManager_init (default_config\<lparr>cache_enabled := False\<rparr>) empty_redis"

section \<open>Admission filter (src/security.py, class SecurityMiddleware)\<close>

text \<open>
  A request is its list of headers, with lower-case names and the values as strings, as
  the server hands them over; the session cookie is one of them. A response has its
  status code, its headers and its JSON body.
\<close>

record request =
  headers :: "(string \<times> string) list"

record response =
  status_code :: int
  response_headers :: "(string \<times> string) list"
  body :: pyval

text \<open>
  Python's \<open>int(s)\<close> on a string: white space around is dropped, then an optional sign,
  then decimal digits, where single underscores may stand between digits. \<open>None\<close> is the
  \<open>ValueError\<close>.
\<close>

definition py_isspace :: "char \<Rightarrow> bool" where
  "py_isspace c = (c \<in> set [CHR 0x09, CHR 0x0A, CHR 0x0B, CHR 0x0C, CHR 0x0D, CHR 0x1C,
                              CHR 0x1D, CHR 0x1E, CHR 0x1F, CHR 0x20, CHR 0x85, CHR 0xA0])"

definition py_strip :: "string \<Rightarrow> string" where
  "py_strip s = rev (dropWhile py_isspace (rev (dropWhile py_isspace s)))"

definition is_digit :: "char \<Rightarrow> bool" where
  "is_digit c = (c \<in> set ''0123456789'')"

fun py_digits :: "bool \<Rightarrow> nat \<Rightarrow> string \<Rightarrow> nat option" where
  "py_digits after_digit acc [] = (if after_digit then Some acc else None)"
| "py_digits after_digit acc (c # cs) =
     (if is_digit c then py_digits True (10 * acc + (of_char c - 48)) cs
      else if c = CHR ''_'' \<and> after_digit then py_digits False acc cs
      else None)"

definition py_int :: "string \<Rightarrow> int option" where
  "py_int s =
     (case py_strip s of
        [] \<Rightarrow> None
      | c # cs \<Rightarrow>
          if c = CHR ''-'' then map_option (\<lambda>n. - int n) (py_digits False 0 cs)
          else if c = CHR ''+'' then map_option int (py_digits False 0 cs)
          else map_option int (py_digits False 0 (c # cs)))"


text \<open>\<open>request.headers.get(name)\<close>, and \<open>Config.get_security_headers\<close> with its policy.\<close>

definition headers_get :: "request \<Rightarrow> string \<Rightarrow> string option" where
  "headers_get req name = map_of (headers req) name"

definition quoted :: "string \<Rightarrow> string" where
  "quoted s = CHR 0x27 # s @ [CHR 0x27]"

definition CSP_POLICY :: "(string \<times> string list) list" where
  "CSP_POLICY =
     [(''default-src'', [quoted ''self'']),
      (''script-src'', [quoted ''self'']),
      (''style-src'', [quoted ''self'']),
      (''font-src'', [quoted ''self'']),
      (''img-src'', [quoted ''self'', ''data:'', ''blob:'', ''https://www.gstatic.com'']),
      (''connect-src'', [quoted ''self'', ''ws:'', ''wss:'', ''http://localhost:11434'']),
      (''frame-src'',
         [quoted ''self'', ''https://www.google.com'', ''https://translate.google.com''])]"

fun str_join :: "string \<Rightarrow> string list \<Rightarrow> string" where
  "str_join sep [] = []"
| "str_join sep [x] = x"
| "str_join sep (x # y # ys) = x @ sep @ str_join sep (y # ys)"

definition dict_get :: "(string \<times> 'a) list \<Rightarrow> string \<Rightarrow> 'a \<Rightarrow> 'a" where
  "dict_get d k dflt = (case map_of d k of None \<Rightarrow> dflt | Some v \<Rightarrow> v)"

definition build_csp_header :: "bool \<Rightarrow> string" where
  "build_csp_header debug =
     (let policy =
        (if debug
         then (let p1 = dict_set CSP_POLICY ''script-src''
                          (dict_get CSP_POLICY ''script-src'' [] @ [quoted ''unsafe-inline''])
               in dict_set p1 ''style-src''
                    (dict_get p1 ''style-src'' [] @ [quoted ''unsafe-inline'']))
         else CSP_POLICY)
      in str_join ''; '' (map (\<lambda>(key, values). key @ '' '' @ str_join '' '' values) policy))"

definition get_security_headers :: "bool \<Rightarrow> (string \<times> string) list" where
  "get_security_headers debug =
     [(''X-Content-Type-Options'', ''nosniff''),
      (''X-Frame-Options'', ''DENY''),
      (''X-XSS-Protection'', ''1; mode=block''),
      (''Strict-Transport-Security'', ''max-age=31536000; includeSubDomains''),
      (''Content-Security-Policy'', build_csp_header debug),
      (''Referrer-Policy'', ''strict-origin-when-cross-origin''),
      (''Permissions-Policy'', ''geolocation=(), microphone=(), camera=()'')]"

text \<open>
  \<open>request.headers.get("host", "").split(":")[0]\<close> and
  \<open>int(request.headers.get("content-length", 0))\<close>.
\<close>

definition request_host :: "request \<Rightarrow> string" where
  "request_host req =
     takeWhile (\<lambda>c. c \<noteq> CHR '':'')
       (case headers_get req ''host'' of None \<Rightarrow> [] | Some h \<Rightarrow> h)"

definition request_content_length :: "request \<Rightarrow> int option" where
  "request_content_length req =
     (case headers_get req ''content-length'' of None \<Rightarrow> Some 0 | Some s \<Rightarrow> py_int s)"

text \<open>
  \<open>SecurityMiddleware.dispatch\<close>. \<open>call_next\<close> is the rest of the application (sessions,
  cache, routes), which acts on a state \<open>'st\<close>. \<open>dispatch_try\<close> is the \<open>try\<close> block,
  \<open>dispatch\<close> adds the two handlers: an \<open>HTTPException\<close> is raised again, any other
  exception becomes status 500.
\<close>

definition dispatch_try ::
  "Config \<Rightarrow> bool \<Rightarrow> (request \<Rightarrow> 'st \<Rightarrow> (py_exc + response) \<times> 'st) \<Rightarrow> request \<Rightarrow> 'st \<Rightarrow>
     (py_exc + response) \<times> 'st" where
  "dispatch_try cfg debug call_next req st =
     (if \<not> is_allowed_host cfg (request_host req)
      then (Inl (HTTPException 400 ''Invalid host header''), st)
      else case request_content_length req of
        None \<Rightarrow> (Inl (Exception ''ValueError: invalid literal for int()''), st)
      | Some n \<Rightarrow>
          if n > max_request_size cfg
          then (Inl (HTTPException 413 ''Request too large''), st)
          else (case call_next req st of
                  (Inl e, st') \<Rightarrow> (Inl e, st')
                | (Inr resp, st') \<Rightarrow>
                    (Inr (resp\<lparr>response_headers :=
                            foldl (\<lambda>h (k, v). dict_set h k v) (response_headers resp)
                              (get_security_headers debug)\<rparr>), st')))"

definition dispatch ::
  "Config \<Rightarrow> bool \<Rightarrow> (request \<Rightarrow> 'st \<Rightarrow> (py_exc + response) \<times> 'st) \<Rightarrow> request \<Rightarrow> 'st \<Rightarrow>
     (py_exc + response) \<times> 'st" where
  "dispatch cfg debug call_next req st =
     (case dispatch_try cfg debug call_next req st of
        (Inl (HTTPException code detail), st') \<Rightarrow> (Inl (HTTPException code detail), st')
      | (Inl (Exception msg), st') \<Rightarrow> (Inl (HTTPException 500 ''Internal server error''), st')
      | (Inr resp, st') \<Rightarrow> (Inr resp, st'))"

text \<open>
  For the concrete runs: an application that counts its calls, a request with a host
  that is not allowed, a session cookie and a large body, and a request with an allowed
  host and a large body.
\<close>

definition counting_app :: "request \<Rightarrow> nat \<Rightarrow> (py_exc + response) \<times> nat" where
  "counting_app req calls =
     (Inr \<lparr>status_code = 200, response_headers = [], body = PDict []\<rparr>, Suc calls)"

definition evil_request :: request where
  "evil_request =
     \<lparr>headers = [(''host'', ''evil.com''), (''cookie'', ''session_id=tok''),
                 (''content-length'', ''2000000'')]\<rparr>"

definition big_request :: request where
  "big_request = \<lparr>headers = [(''host'', ''localhost:8000''), (''content-length'', ''2000000'')]\<rparr>"

section \<open>Single-flight report coordinator (src/web_new.py)\<close>

text \<open>
  The event loop runs one piece of code at a time, and a coroutine gives control back
  only at an \<open>await\<close>. The pieces of \<open>report\<close> and \<open>generate_report_background\<close>
  between two such points are the steps of the model:
  \<^item> the body of \<open>report\<close>, which has no \<open>await\<close>;
  \<^item> the first step of a task made by \<open>asyncio.create_task\<close>: it enters
    \<open>async with report_lock\<close>, and either takes the lock and hands the computation to
    the executor, or joins the waiters of the lock;
  \<^item> the step of a waiter woken by a release: it takes the lock and hands the
    computation to the executor;
  \<^item> the step at which the executor's result arrives: the record is written to the
    cache and the lock is released.
  A task is known by its position in the list of tasks created so far. The lock is
  \<open>asyncio.Lock\<close>: \<open>locked\<close> is its flag, \<open>waiters\<close> its queue; an acquisition
  succeeds at once when the flag is down and nobody waits; a release lowers the flag and
  wakes the first waiter, who raises the flag when it runs. \<open>trace\<close> records what can be
  observed: responses, computations started, writes to the cache.
\<close>

datatype task_status = Scheduled | Waiting | Woken | Computing | Finished

datatype observation =
    Response "py_exc + response"
  | Computation_started nat
  | Cache_set string pyval int "py_exc + bool"

record server =
  cache_manager :: CacheManager
  locked :: bool
  waiters :: "nat list"
  tasks :: "task_status list"
  trace :: "observation list"

text \<open>The handler of \<open>GET /report\<close>, once the caller is authenticated.\<close>

definition REPORT_SCHEMA_VERSION :: int where
  "REPORT_SCHEMA_VERSION = 2"

definition JSONResponse :: "int \<Rightarrow> pyval \<Rightarrow> response" where
  "JSONResponse code content = \<lparr>status_code = code, response_headers = [], body = content\<rparr>"

definition report :: "server \<Rightarrow> real \<Rightarrow> (py_exc + response) \<times> server" where
  "report s now =
     (case CacheManager_get (cache_manager s) get_report_cache_key now of
        Inl e \<Rightarrow> (Inl (HTTPException 500 ''Internal server error''), s)
      | Inr cached_report \<Rightarrow>
          if truthy cached_report
          then (Inr (JSONResponse 200
                  (PDict [(''status'', PStr ''ready''), (''report'', cached_report)])), s)
          else if locked s
          then (Inr (JSONResponse 202 (PDict [(''status'', PStr ''generating'')])), s)
          else (Inr (JSONResponse 202 (PDict [(''status'', PStr ''started'')])),
                s\<lparr>tasks := tasks s @ [Scheduled]\<rparr>))"

text \<open>
  \<open>generate_report_background\<close>. The outcome of \<open>agent.generate_security_report\<close> in the
  executor is \<open>Inr\<close> of the report, or \<open>Inl\<close> of \<open>str(e)\<close> for the exception raised.
\<close>

definition enter_computation :: "nat \<Rightarrow> server \<Rightarrow> server" where
  "enter_computation i s =
     s\<lparr>locked := True, tasks := (tasks s)[i := Computing],
       trace := trace s @ [Computation_started i]\<rparr>"

definition task_start :: "nat \<Rightarrow> server \<Rightarrow> server" where
  "task_start i s =
     (if i < length (tasks s) \<and> tasks s ! i = Scheduled
      then (if \<not> locked s \<and> waiters s = []
            then enter_computation i s
            else s\<lparr>waiters := waiters s @ [i], tasks := (tasks s)[i := Waiting]\<rparr>)
      else s)"

definition task_resume :: "nat \<Rightarrow> server \<Rightarrow> server" where
  "task_resume i s =
     (if i < length (tasks s) \<and> tasks s ! i = Woken
      then enter_computation i (s\<lparr>waiters := remove1 i (waiters s)\<rparr>)
      else s)"

definition cache_report :: "pyval \<Rightarrow> int \<Rightarrow> real \<Rightarrow> server \<Rightarrow> server" where
  "cache_report v ttl now s =
     (case CacheManager_set (cache_manager s) get_report_cache_key v (Some ttl) now of
        (res, cm') \<Rightarrow>
          s\<lparr>cache_manager := cm',
            trace := trace s @ [Cache_set get_report_cache_key v ttl res]\<rparr>)"

definition release :: "server \<Rightarrow> server" where
  "release s =
     (case waiters s of
        [] \<Rightarrow> s\<lparr>locked := False\<rparr>
      | w # ws \<Rightarrow> s\<lparr>locked := False, tasks := (tasks s)[w := Woken]\<rparr>)"

definition executor_done :: "nat \<Rightarrow> string + pyval \<Rightarrow> real \<Rightarrow> server \<Rightarrow> server" where
  "executor_done i outcome now s =
     (if i < length (tasks s) \<and> tasks s ! i = Computing
      then (let s1 = (case outcome of
                        Inr report_data \<Rightarrow>
                          cache_report
                            (PDict [(''status'', PStr ''success''),
                                    (''version'', PInt REPORT_SCHEMA_VERSION),
                                    (''data'', report_data)])
                            (cache_ttl (config (cache_manager s))) now s
                      | Inl message \<Rightarrow>
                          cache_report
                            (PDict [(''status'', PStr ''error''), (''message'', PStr message)])
                            300 now s)
            in release (s1\<lparr>tasks := (tasks s1)[i := Finished]\<rparr>))
      else s)"

text \<open>What the event loop can run next, and a run of the server under a schedule.\<close>

datatype event =
    Request real
  | Task_start nat
  | Task_resume nat
  | Executor_done nat "string + pyval" real

fun step :: "server \<Rightarrow> event \<Rightarrow> server" where
  "step s (Request now) =
     (case report s now of (res, s') \<Rightarrow> s'\<lparr>trace := trace s' @ [Response res]\<rparr>)"
| "step s (Task_start i) = task_start i s"
| "step s (Task_resume i) = task_resume i s"
| "step s (Executor_done i outcome now) = executor_done i outcome now s"

definition run :: "server \<Rightarrow> event list \<Rightarrow> server" where
  "run s events = foldl step s events"

text \<open>Servers, reports and records for the concrete runs.\<close>

definition new_server :: "CacheManager \<Rightarrow> server" where
  "new_server cm =
     \<lparr>cache_manager = cm, locked = False, waiters = [], tasks = [], trace = []\<rparr>"

definition sample_report :: pyval where
  "sample_report = PDict [(''framework'', PStr ''FastAPI''), (''file_count'', PInt 18)]"

definition short_ttl_cache :: CacheManager where
  "short_ttl_cache = CacheManager_init (default_config\<lparr>cache_ttl := 60\<rparr>) empty_redis"

definition started_response :: "py_exc + response" where
  "started_response = Inr (JSONResponse 202 (PDict [(''status'', PStr ''started'')]))"

definition generating_response :: "py_exc + response" where
  "generating_response = Inr (JSONResponse 202 (PDict [(''status'', PStr ''generating'')]))"

definition ready_record :: "pyval \<Rightarrow> pyval" where
  "ready_record report_data =
     PDict [(''status'', PStr ''success''), (''version'', PInt 2), (''data'', report_data)]"

definition error_record :: "string \<Rightarrow> pyval" where
  "error_record message = PDict [(''status'', PStr ''error''), (''message'', PStr message)]"

definition computing_server :: "CacheManager \<Rightarrow> server" where
  "computing_server cm = run (new_server cm) [Request 0, Task_start 0]"

lemmas report_eval =
  run_def new_server_def report_def task_start_def task_resume_def executor_done_def
  enter_computation_def cache_report_def release_def JSONResponse_def
  REPORT_SCHEMA_VERSION_def get_report_cache_key_def sample_report_def
  working_cache_def short_ttl_cache_def CacheManager_init_def default_config_def
  empty_redis_def redis_ping_def CacheManager_get_def CacheManager_set_def redis_get_def
  redis_setex_def live_def ttl_or_def json_dumps_def member_opt_def dict_of_items_def
  started_response_def generating_response_def ready_record_def error_record_def

section \<open>Properties of the session registry\<close>

lemma validate_session_lifetime [simp]:
  "lifetime (snd (validate_session m sid t)) = lifetime m"
  by (simp add: validate_session_def split: option.splits)

lemma validate_session_keeps_created:
  assumes "sessions m sid = Some sess"
  shows "sessions (snd (validate_session m sid' t)) sid = None \<or>
         (\<exists>sess'. sessions (snd (validate_session m sid' t)) sid = Some sess' \<and>
                  created_at sess' = created_at sess)"
  using assms by (auto simp: validate_session_def split: option.splits)

lemma validate_session_keeps_absent:
  "sessions m sid = None \<Longrightarrow> sessions (snd (validate_session m sid' t)) sid = None"
  by (auto simp: validate_session_def split: option.splits)

lemma validate_all_lifetime [simp]: "lifetime (validate_all m calls) = lifetime m"
  by (induction m calls rule: validate_all.induct) simp_all

lemma validate_all_keeps_absent:
  "sessions m sid = None \<Longrightarrow> sessions (validate_all m calls) sid = None"
  by (induction m calls rule: validate_all.induct) (simp_all add: validate_session_keeps_absent)

lemma validate_all_keeps_created:
  "sessions m sid = Some sess \<Longrightarrow>
     sessions (validate_all m calls) sid = None \<or>
     (\<exists>sess'. sessions (validate_all m calls) sid = Some sess' \<and>
              created_at sess' = created_at sess)"
proof (induction m calls arbitrary: sess rule: validate_all.induct)
  case (1 m)
  then show ?case by simp
next
  case (2 m sid' t calls)
  from validate_session_keeps_created [OF "2.prems", of sid' t]
  show ?case
  proof
    assume "sessions (snd (validate_session m sid' t)) sid = None"
    then show ?thesis by (simp add: validate_all_keeps_absent)
  next
    assume "\<exists>sess'. sessions (snd (validate_session m sid' t)) sid = Some sess' \<and>
                    created_at sess' = created_at sess"
    then obtain sess' where s: "sessions (snd (validate_session m sid' t)) sid = Some sess'"
      and c: "created_at sess' = created_at sess" by blast
    from "2.IH" [OF s] c show ?thesis by simp
  qed
qed

text \<open>
  C4. Session lifecycle. A session is created at \<open>t\<close> and validated at \<open>now\<close> with no call
  in between. When no more than \<open>lifetime\<close> seconds have passed (in particular at once,
  the lifetime being a non-negative number of seconds), validation returns true. When more
  than \<open>lifetime\<close> seconds have passed, validation returns false and the session is no
  longer in the registry, so that validating the same id again, at any time, returns false
  too.
\<close>

theorem session_lifecycle:
  "fst (create_session m sid cid t t') = sid \<and>
   (now - t \<le> of_int (lifetime m) \<longrightarrow>
      fst (validate_session (snd (create_session m sid cid t t')) sid now)) \<and>
   (now - t > of_int (lifetime m) \<longrightarrow>
      \<not> fst (validate_session (snd (create_session m sid cid t t')) sid now) \<and>
      sessions (snd (validate_session (snd (create_session m sid cid t t')) sid now)) sid
        = None \<and>
      \<not> fst (validate_session
               (snd (validate_session (snd (create_session m sid cid t t')) sid now))
               sid now'))"
  by (simp add: create_session_def validate_session_def)

theorem session_lifecycle_witness:
  "fst (validate_session (snd (create_session example_manager ''tok'' ''alice'' 100 100))
         ''tok'' 100) \<and>
   \<not> fst (validate_session (snd (create_session example_manager ''tok'' ''alice'' 100 100))
         ''tok'' 3701) \<and>
   \<not> fst (validate_session
           (snd (validate_session
                  (snd (create_session example_manager ''tok'' ''alice'' 100 100))
                  ''tok'' 3701))
           ''tok'' 3702)"
  using session_lifecycle [of example_manager "''tok''" "''alice''" 100 100 100 3702]
        session_lifecycle [of example_manager "''tok''" "''alice''" 100 100 3701 3702]
  by (simp add: example_manager_def SessionManager_init_def)

text \<open>
  C7. Hard ceiling. The decision of \<open>validate_session\<close> does not read \<open>last_accessed\<close>:
  two registries that differ only in that field of the session give the same answer. And
  once more than \<open>lifetime\<close> seconds have passed since the creation of a session,
  validating it returns false after any run of validations, of this id or of others,
  whatever their times and results.
\<close>

theorem session_hard_ceiling:
  "sessions m sid = Some sess \<Longrightarrow>
     fst (validate_session (m\<lparr>sessions := (sessions m)(sid \<mapsto>
            sess\<lparr>last_accessed := la\<rparr>)\<rparr>) sid now) =
     fst (validate_session m sid now) \<and>
     (now - created_at sess > of_int (lifetime m) \<longrightarrow>
        \<not> fst (validate_session (validate_all m calls) sid now))"
proof (intro conjI impI)
  assume known: "sessions m sid = Some sess"
  then show "fst (validate_session (m\<lparr>sessions := (sessions m)(sid \<mapsto>
                 sess\<lparr>last_accessed := la\<rparr>)\<rparr>) sid now) =
         fst (validate_session m sid now)"
    by (simp add: validate_session_def)
  assume late: "now - created_at sess > of_int (lifetime m)"
  from validate_all_keeps_created [OF known, of calls]
  show "\<not> fst (validate_session (validate_all m calls) sid now)"
  proof
    assume "sessions (validate_all m calls) sid = None"
    then show ?thesis by (simp add: validate_session_def)
  next
    assume "\<exists>sess'. sessions (validate_all m calls) sid = Some sess' \<and>
                    created_at sess' = created_at sess"
    then obtain sess' where "sessions (validate_all m calls) sid = Some sess'"
      and "created_at sess' = created_at sess" by blast
    with late show ?thesis by (simp add: validate_session_def)
  qed
qed

theorem session_hard_ceiling_witness:
  "sessions (snd (create_session example_manager ''tok'' ''alice'' 100 101)) ''tok'' =
     Some \<lparr>client_id = ''alice'', created_at = 100, last_accessed = 101\<rparr> \<and>
   fst (validate_session (snd (create_session example_manager ''tok'' ''alice'' 100 101))
         ''tok'' 3000) \<and>
   \<not> fst (validate_session
           (validate_all (snd (create_session example_manager ''tok'' ''alice'' 100 101))
              [(''tok'', 200), (''other'', 300), (''tok'', 3000)])
           ''tok'' 3701)"
  using session_hard_ceiling
          [of "snd (create_session example_manager ''tok'' ''alice'' 100 101)" "''tok''"
              "\<lparr>client_id = ''alice'', created_at = 100, last_accessed = 101\<rparr>"
              3000 3701 "[(''tok'', 200), (''other'', 300), (''tok'', 3000)]"]
  by (simp add: example_manager_def SessionManager_init_def create_session_def
        validate_session_def)

text \<open>
  C10. Frame of a validation. When \<open>validate_session\<close> returns true, the named session
  is still there with the same \<open>client_id\<close> and \<open>created_at\<close> and with \<open>last_accessed\<close>
  set to the current time, every other id maps to what it mapped to before, and the
  other fields of the manager are unchanged. On an unknown id the manager is returned as
  it was.
\<close>

theorem validate_session_frame:
  "(fst (validate_session m sid now) \<longrightarrow>
     (\<exists>sess. sessions m sid = Some sess \<and>
        sessions (snd (validate_session m sid now)) sid =
          Some \<lparr>client_id = client_id sess, created_at = created_at sess,
                last_accessed = now\<rparr>) \<and>
     (\<forall>other. other \<noteq> sid \<longrightarrow>
        sessions (snd (validate_session m sid now)) other = sessions m other) \<and>
     lifetime (snd (validate_session m sid now)) = lifetime m \<and>
     secret_key (snd (validate_session m sid now)) = secret_key m) \<and>
   (sessions m sid = None \<longrightarrow> validate_session m sid now = (False, m))"
  by (auto simp: validate_session_def split: option.splits if_splits)

theorem validate_session_frame_witness:
  "fst (validate_session (snd (create_session example_manager ''tok'' ''alice'' 100 101))
         ''tok'' 200) \<and>
   sessions (snd (validate_session
                   (snd (create_session example_manager ''tok'' ''alice'' 100 101))
                   ''tok'' 200)) ''tok'' =
     Some \<lparr>client_id = ''alice'', created_at = 100, last_accessed = 200\<rparr> \<and>
   sessions (snd (validate_session
                   (snd (create_session example_manager ''tok'' ''alice'' 100 101))
                   ''tok'' 200)) ''other'' = None \<and>
   validate_session example_manager ''tok'' 200 = (False, example_manager)"
  using validate_session_frame
          [of "snd (create_session example_manager ''tok'' ''alice'' 100 101)" "''tok''" 200]
        validate_session_frame [of example_manager "''tok''" 200]
  by (simp add: example_manager_def SessionManager_init_def create_session_def
        validate_session_def)

section \<open>Properties of the cache store\<close>

lemma map_of_filter_absent:
  "(\<And>e. e \<in> set es \<Longrightarrow> P e \<Longrightarrow> fst e \<noteq> key) \<Longrightarrow> map_of (filter P es) key = None"
  by (induction es) auto

lemma redis_get_after_setex:
  assumes "reachable r"
  shows "redis_get (r\<lparr>entries := (key, b, expiry) # filter (\<lambda>e. fst e \<noteq> key) (entries r)\<rparr>)
           key later = Inr (if later < expiry then Some b else None)"
proof -
  have "map_of (filter (\<lambda>(k, v, e). later < e) (filter (\<lambda>e. fst e \<noteq> key) (entries r))) key
          = None"
    by (rule map_of_filter_absent) auto
  with assms show ?thesis
    by (simp add: redis_get_def live_def del: filter_filter)
qed

text \<open>
  C3. Graceful degradation. When the manager has no client (\<open>redis_client is None\<close>),
  \<open>get\<close> returns \<open>None\<close>, \<open>set\<close>, \<open>delete\<close> and \<open>exists\<close> return \<open>False\<close>,
  \<open>clear_pattern\<close> returns \<open>0\<close>, each of them returns normally (the result is \<open>Inr\<close>,
  no exception leaves the method), and the manager is unchanged.
\<close>

theorem cache_degrades:
  "redis_client cm = None \<Longrightarrow>
     CacheManager_get cm key now = Inr PNone \<and>
     CacheManager_set cm key v ttl now = (Inr False, cm) \<and>
     CacheManager_delete cm key now = (Inr False, cm) \<and>
     CacheManager_exists cm key now = Inr False \<and>
     CacheManager_clear_pattern cm pattern now = (Inr 0, cm)"
  by (simp add: CacheManager_get_def CacheManager_set_def CacheManager_delete_def
        CacheManager_exists_def CacheManager_clear_pattern_def)

theorem cache_degrades_witness:
  "redis_client disabled_cache = None \<and>
   CacheManager_get disabled_cache ''k'' 5 = Inr PNone \<and>
   CacheManager_set disabled_cache ''k'' (PInt 1) (Some 60) 5 = (Inr False, disabled_cache) \<and>
   CacheManager_delete disabled_cache ''k'' 5 = (Inr False, disabled_cache) \<and>
   CacheManager_exists disabled_cache ''k'' 5 = Inr False \<and>
   CacheManager_clear_pattern disabled_cache ''q*'' 5 = (Inr 0, disabled_cache)"
  using cache_degrades [of disabled_cache "''k''" 5 "PInt 1" "Some 60" "''q*''"]
  by (simp add: disabled_cache_def CacheManager_init_def default_config_def)

lemma cache_unreachable_degrades:
  "redis_client cm = Some r \<Longrightarrow> \<not> reachable r \<Longrightarrow>
     CacheManager_get cm key now = Inr PNone \<and>
     CacheManager_set cm key v ttl now = (Inr False, cm) \<and>
     CacheManager_delete cm key now = (Inr False, cm) \<and>
     CacheManager_exists cm key now = Inr False \<and>
     CacheManager_clear_pattern cm pattern now = (Inr 0, cm)"
  by (simp add: CacheManager_get_def CacheManager_set_def CacheManager_delete_def
        CacheManager_exists_def CacheManager_clear_pattern_def redis_get_def redis_setex_def
        redis_delete_def redis_exists_def redis_keys_def json_dumps_def split: option.splits)

lemma CacheManager_init_without_client:
  "\<not> cache_enabled cfg \<or> \<not> reachable server \<Longrightarrow>
     redis_client (CacheManager_init cfg server) = None"
  by (auto simp: CacheManager_init_def redis_ping_def)

lemma CacheManager_set_stores:
  assumes "redis_client cm = Some r" "reachable r" "json_dumps v = Inr b"
    and "0 < ttl_or ttl (cache_ttl (config cm))"
  shows "CacheManager_set cm key v ttl now =
           (Inr True,
            cm\<lparr>redis_client := Some (r\<lparr>entries :=
                 (key, b, now + of_int (ttl_or ttl (cache_ttl (config cm)))) #
                 filter (\<lambda>e. fst e \<noteq> key) (entries r)\<rparr>)\<rparr>)"
  using assms by (simp add: CacheManager_set_def redis_setex_def)

text \<open>
  C5, as amended. When the manager has a client whose server answers, the effective
  expiry (\<open>ttl\<close>, or the configured default when \<open>ttl\<close> is \<open>None\<close> or \<open>0\<close>) is positive,
  and the value is one that \<open>json.dumps\<close> accepts and \<open>json.loads\<close> reads back as
  itself, then \<open>set\<close> returns \<open>True\<close>, a \<open>get\<close> of the same key before the expiry
  has elapsed returns the value, and a \<open>get\<close> once it has elapsed returns \<open>None\<close>.
\<close>

theorem cache_round_trip:
  "redis_client cm = Some r \<Longrightarrow> reachable r \<Longrightarrow>
   0 < ttl_or ttl (cache_ttl (config cm)) \<Longrightarrow>
   json_dumps v = Inr b \<Longrightarrow> json_loads b = Inr v \<Longrightarrow>
     fst (CacheManager_set cm key v ttl now) = Inr True \<and>
     (later < now + of_int (ttl_or ttl (cache_ttl (config cm))) \<longrightarrow>
        CacheManager_get (snd (CacheManager_set cm key v ttl now)) key later = Inr v) \<and>
     (now + of_int (ttl_or ttl (cache_ttl (config cm))) \<le> later \<longrightarrow>
        CacheManager_get (snd (CacheManager_set cm key v ttl now)) key later = Inr PNone)"
proof -
  assume client: "redis_client cm = Some r" and up: "reachable r"
    and pos: "0 < ttl_or ttl (cache_ttl (config cm))"
    and dumps: "json_dumps v = Inr b" and loads: "json_loads b = Inr v"
  obtain j where b: "b = Json_text j"
    using dumps by (auto simp: json_dumps_def split: option.splits)
  note stored = CacheManager_set_stores [OF client up dumps pos, of key now]
  show ?thesis
    using loads b
    by (simp add: stored CacheManager_get_def redis_get_after_setex [OF up])
qed

theorem cache_round_trip_witness:
  "CacheManager_set working_cache ''k'' (PDict [(''n'', PInt 1)]) (Some 60) 10 =
     (Inr True, working_cache\<lparr>redis_client := Some (empty_redis\<lparr>entries :=
        [(''k'', Json_text (JObj [(''n'', JInt 1)]), 70)]\<rparr>)\<rparr>) \<and>
   CacheManager_get (snd (CacheManager_set working_cache ''k'' (PDict [(''n'', PInt 1)])
      (Some 60) 10)) ''k'' 10 = Inr (PDict [(''n'', PInt 1)]) \<and>
   CacheManager_get (snd (CacheManager_set working_cache ''k'' (PDict [(''n'', PInt 1)])
      (Some 60) 10)) ''k'' 70 = Inr PNone"
  using cache_round_trip [of working_cache empty_redis "Some 60" "PDict [(''n'', PInt 1)]"
          "Json_text (JObj [(''n'', JInt 1)])" "''k''" 10 10]
        cache_round_trip [of working_cache empty_redis "Some 60" "PDict [(''n'', PInt 1)]"
          "Json_text (JObj [(''n'', JInt 1)])" "''k''" 10 70]
  by (simp add: working_cache_def CacheManager_init_def default_config_def empty_redis_def
        redis_ping_def ttl_or_def json_dumps_def member_opt_def dict_of_items_def
        CacheManager_set_def redis_setex_def)

text \<open>
  C5 as stated, for every key and serializable value, fails: with the cache disabled the
  value is not stored; with a negative \<open>ttl\<close> the server refuses the write; a tuple is
  read back as a list.
\<close>

theorem cache_round_trip_counterexample:
  "CacheManager_get (snd (CacheManager_set disabled_cache ''k'' (PInt 1) (Some 60) 0)) ''k'' 0
     \<noteq> Inr (PInt 1) \<and>
   CacheManager_get (snd (CacheManager_set working_cache ''k'' (PInt 1) (Some (- 5)) 0)) ''k'' 0
     \<noteq> Inr (PInt 1) \<and>
   CacheManager_get (snd (CacheManager_set working_cache ''k'' (PTuple [PInt 1]) (Some 60) 0))
     ''k'' 0 \<noteq> Inr (PTuple [PInt 1])"
  by (simp add: disabled_cache_def working_cache_def CacheManager_init_def default_config_def
        empty_redis_def redis_ping_def ttl_or_def json_dumps_def CacheManager_set_def
        CacheManager_get_def redis_setex_def redis_get_def live_def)

lemma CacheManager_set_ttl_or:
  "ttl_or t1 (cache_ttl (config cm)) = ttl_or t2 (cache_ttl (config cm)) \<Longrightarrow>
     CacheManager_set cm key v t1 now = CacheManager_set cm key v t2 now"
  by (simp add: CacheManager_set_def split: option.splits sum.splits)

text \<open>
  C9. A falsy \<open>ttl\<close> is taken as not supplied: \<open>set\<close> with \<open>ttl=0\<close> does what \<open>set\<close>
  without \<open>ttl\<close> does, and what \<open>set\<close> with the configured default does. With a client
  whose server answers, a serializable value and a positive default, the entry is
  stored and expires \<open>cache_ttl\<close> seconds later, not at once.
\<close>

theorem set_falsy_ttl:
  "CacheManager_set cm key v (Some 0) now = CacheManager_set cm key v None now \<and>
   CacheManager_set cm key v (Some 0) now =
     CacheManager_set cm key v (Some (cache_ttl (config cm))) now \<and>
   (redis_client cm = Some r \<and> reachable r \<and> json_dumps v = Inr b \<and>
    0 < cache_ttl (config cm) \<longrightarrow>
      CacheManager_set cm key v (Some 0) now =
        (Inr True,
         cm\<lparr>redis_client := Some (r\<lparr>entries :=
              (key, b, now + of_int (cache_ttl (config cm))) #
              filter (\<lambda>e. fst e \<noteq> key) (entries r)\<rparr>)\<rparr>))"
proof (intro conjI impI)
  show "CacheManager_set cm key v (Some 0) now = CacheManager_set cm key v None now"
    by (rule CacheManager_set_ttl_or) (simp add: ttl_or_def)
  show "CacheManager_set cm key v (Some 0) now =
          CacheManager_set cm key v (Some (cache_ttl (config cm))) now"
    by (rule CacheManager_set_ttl_or) (simp add: ttl_or_def)
  assume "redis_client cm = Some r \<and> reachable r \<and> json_dumps v = Inr b \<and>
          0 < cache_ttl (config cm)"
  then show "CacheManager_set cm key v (Some 0) now =
        (Inr True,
         cm\<lparr>redis_client := Some (r\<lparr>entries :=
              (key, b, now + of_int (cache_ttl (config cm))) #
              filter (\<lambda>e. fst e \<noteq> key) (entries r)\<rparr>)\<rparr>)"
    using CacheManager_set_stores [of cm r v b "Some 0" key now] by (simp add: ttl_or_def)
qed

theorem set_falsy_ttl_witness:
  "CacheManager_set working_cache ''k'' (PInt 7) (Some 0) 10 =
     (Inr True, working_cache\<lparr>redis_client := Some (empty_redis\<lparr>entries :=
        [(''k'', Json_text (JInt 7), 3610)]\<rparr>)\<rparr>) \<and>
   CacheManager_set working_cache ''k'' (PInt 7) (Some 0) 10 =
     CacheManager_set working_cache ''k'' (PInt 7) None 10"
  using set_falsy_ttl [of working_cache "''k''" "PInt 7" 10 empty_redis "Json_text (JInt 7)"]
  by (simp add: working_cache_def CacheManager_init_def default_config_def empty_redis_def
        redis_ping_def json_dumps_def CacheManager_set_def redis_setex_def ttl_or_def)

section \<open>Properties of the admission filter\<close>

text \<open>
  C6, as amended. A request whose host, cut at the first colon, is not in the allow-list
  is rejected with status 400, whatever its other headers (a session cookie among them),
  without a call of the rest of the application: the result does not depend on
  \<open>call_next\<close> and the state is unchanged. A request that passes the host check and
  whose content-length is a number above the ceiling is rejected with status 413, again
  without such a call.
\<close>

theorem admission_checks:
  "(\<not> is_allowed_host cfg (request_host req) \<longrightarrow>
      dispatch cfg debug call_next req st = (Inl (HTTPException 400 ''Invalid host header''), st)) \<and>
   (is_allowed_host cfg (request_host req) \<and> request_content_length req = Some n \<and>
    n > max_request_size cfg \<longrightarrow>
      dispatch cfg debug call_next req st = (Inl (HTTPException 413 ''Request too large''), st))"
  by (simp add: dispatch_def dispatch_try_def)

theorem admission_checks_witness:
  "dispatch default_config False counting_app evil_request 0 =
     (Inl (HTTPException 400 ''Invalid host header''), 0) \<and>
   dispatch default_config False counting_app big_request 0 =
     (Inl (HTTPException 413 ''Request too large''), 0)"
  using admission_checks [of default_config evil_request False counting_app 0 2000000]
        admission_checks [of default_config big_request False counting_app 0 2000000]
  by (simp add: default_config_def evil_request_def big_request_def is_allowed_host_def
        request_host_def request_content_length_def headers_get_def py_int_def py_strip_def
        py_isspace_def is_digit_def)

text \<open>
  C6 as stated fails in its second part: a request with a content-length above the
  ceiling and a host that is not allowed is rejected with status 400, not 413.
\<close>

theorem payload_too_large_counterexample:
  "request_content_length evil_request = Some 2000000 \<and>
   2000000 > max_request_size default_config \<and>
   fst (dispatch default_config False counting_app evil_request 0) \<noteq>
     Inl (HTTPException 413 ''Request too large'')"
  by (simp add: default_config_def evil_request_def is_allowed_host_def dispatch_def
        dispatch_try_def request_host_def request_content_length_def headers_get_def
        py_int_def py_strip_def py_isspace_def is_digit_def)

section \<open>Properties of the report coordinator\<close>

text \<open>
  C1. Single flight. The check \<open>report_lock.locked()\<close> and the acquisition of the lock
  are two steps, the second made by the scheduled task. Under the schedule in which a
  second request is handled after the first has returned and before the first task has
  run, the second request is answered \<open>started\<close> too, two computations run one after
  the other, and the ready record is written twice.
\<close>

theorem report_race_duplicates:
  "trace (run (new_server working_cache)
     [Request 0, Request 0, Task_start 0, Task_start 1,
      Executor_done 0 (Inr sample_report) 10, Task_resume 1,
      Executor_done 1 (Inr sample_report) 20]) =
   [Response started_response, Response started_response,
    Computation_started 0,
    Cache_set ''security_report'' (ready_record sample_report) 3600 (Inr True),
    Computation_started 1,
    Cache_set ''security_report'' (ready_record sample_report) 3600 (Inr True)]"
  by (simp add: report_eval)

text \<open>
  C2. After a failed computation, a poll before the error record expires is answered
  with status 200 and the body \<open>{"status": "ready", "report": {"status": "error",
  "message": ...}}\<close>: the error record is wrapped as a ready report. A poll once the
  300 seconds have passed is answered \<open>started\<close> and a new computation is scheduled.
\<close>

theorem error_served_as_ready:
  "trace (run (new_server working_cache)
     [Request 0, Task_start 0, Executor_done 0 (Inl ''boom'') 10, Request 20, Request 310]) =
   [Response started_response,
    Computation_started 0,
    Cache_set ''security_report'' (error_record ''boom'') 300 (Inr True),
    Response (Inr (JSONResponse 200
       (PDict [(''status'', PStr ''ready''), (''report'', error_record ''boom'')]))),
    Response started_response]"
  by (simp add: report_eval)

text \<open>
  While a task holds the lock and the cache has no record, a request is answered
  \<open>generating\<close> and schedules nothing; while the lock is free it is answered \<open>started\<close>
  and schedules a task.
\<close>

lemma report_while_locked:
  "CacheManager_get (cache_manager s) get_report_cache_key now = Inr v \<Longrightarrow> \<not> truthy v \<Longrightarrow>
   locked s \<Longrightarrow> report s now = (generating_response, s)"
  by (simp add: report_def generating_response_def)

lemma report_while_scheduled:
  "CacheManager_get (cache_manager s) get_report_cache_key now = Inr v \<Longrightarrow> \<not> truthy v \<Longrightarrow>
   \<not> locked s \<Longrightarrow>
   report s now = (started_response, s\<lparr>tasks := tasks s @ [Scheduled]\<rparr>)"
  by (simp add: report_def started_response_def)

lemma cache_manager_release [simp]: "cache_manager (release s) = cache_manager s"
  by (simp add: release_def split: list.splits)

lemma trace_release [simp]: "trace (release s) = trace s"
  by (simp add: release_def split: list.splits)

lemma cache_report_stores:
  assumes "redis_client (cache_manager s) = Some r" "reachable r" "0 < ttl"
    and "encode v = Some j"
  shows "CacheManager_get (cache_manager (cache_report v ttl now s)) get_report_cache_key later
           = (if later < now + of_int ttl then Inr (decode j) else Inr PNone)"
    and "trace (cache_report v ttl now s) =
           trace s @ [Cache_set get_report_cache_key v ttl (Inr True)]"
proof -
  have dumps: "json_dumps v = Inr (Json_text j)"
    using assms(4) by (simp add: json_dumps_def)
  have pos: "0 < ttl_or (Some ttl) (cache_ttl (config (cache_manager s)))"
    using assms(3) by (simp add: ttl_or_def)
  have eff: "ttl_or (Some ttl) (cache_ttl (config (cache_manager s))) = ttl"
    using assms(3) by (simp add: ttl_or_def)
  note stored = CacheManager_set_stores [OF assms(1) assms(2) dumps pos,
      of get_report_cache_key now]
  show "CacheManager_get (cache_manager (cache_report v ttl now s)) get_report_cache_key later
           = (if later < now + of_int ttl then Inr (decode j) else Inr PNone)"
    by (simp add: cache_report_def stored eff CacheManager_get_def
          redis_get_after_setex [OF assms(2)])
  show "trace (cache_report v ttl now s) =
           trace s @ [Cache_set get_report_cache_key v ttl (Inr True)]"
    by (simp add: cache_report_def stored eff)
qed

text \<open>
  C8, as amended. With a cache whose server answers, a positive standard TTL and a
  serializable report, a successful computation writes the ready record with the
  standard TTL \<open>config.cache_ttl\<close> and a failed computation writes the error record
  with the fixed TTL of 300 seconds; each record is served until its TTL has elapsed.
  When the standard TTL is above 300 seconds, the error record is gone at a time when
  the ready record would still be served.
\<close>

theorem report_record_ttls:
  "i < length (tasks s) \<Longrightarrow> tasks s ! i = Computing \<Longrightarrow>
   redis_client (cache_manager s) = Some r \<Longrightarrow> reachable r \<Longrightarrow>
   0 < cache_ttl (config (cache_manager s)) \<Longrightarrow> encode report_data = Some j \<Longrightarrow>
     trace (executor_done i (Inr report_data) now s) =
       trace s @ [Cache_set get_report_cache_key (ready_record report_data)
                    (cache_ttl (config (cache_manager s))) (Inr True)] \<and>
     trace (executor_done i (Inl message) now s) =
       trace s @ [Cache_set get_report_cache_key (error_record message) 300 (Inr True)] \<and>
     CacheManager_get (cache_manager (executor_done i (Inr report_data) now s))
         get_report_cache_key later =
       (if later < now + of_int (cache_ttl (config (cache_manager s)))
        then Inr (ready_record (decode j)) else Inr PNone) \<and>
     CacheManager_get (cache_manager (executor_done i (Inl message) now s))
         get_report_cache_key later =
       (if later < now + 300 then Inr (error_record message) else Inr PNone) \<and>
     (300 < cache_ttl (config (cache_manager s)) \<longrightarrow>
        CacheManager_get (cache_manager (executor_done i (Inl message) now s))
          get_report_cache_key (now + 300) = Inr PNone \<and>
        CacheManager_get (cache_manager (executor_done i (Inr report_data) now s))
          get_report_cache_key (now + 300) = Inr (ready_record (decode j)))"
proof -
  assume i: "i < length (tasks s)" "tasks s ! i = Computing"
    and client: "redis_client (cache_manager s) = Some r" and up: "reachable r"
    and pos: "0 < cache_ttl (config (cache_manager s))"
    and enc: "encode report_data = Some j"
  have enc_ready: "encode (ready_record report_data) =
      Some (JObj [(''status'', JStr ''success''), (''version'', JInt 2), (''data'', j)])"
    using enc by (simp add: ready_record_def member_opt_def)
  have dec_ready:
    "decode (JObj [(''status'', JStr ''success''), (''version'', JInt 2), (''data'', j)]) =
       ready_record (decode j)"
    by (simp add: ready_record_def dict_of_items_def)
  have enc_error: "encode (error_record message) =
      Some (JObj [(''status'', JStr ''error''), (''message'', JStr message)])"
    by (simp add: error_record_def member_opt_def)
  have dec_error:
    "decode (JObj [(''status'', JStr ''error''), (''message'', JStr message)]) =
       error_record message"
    by (simp add: error_record_def dict_of_items_def)
  note ok = cache_report_stores [OF client up pos enc_ready, of now]
  have pos300: "(0::int) < 300" by simp
  note err = cache_report_stores [OF client up pos300 enc_error, of now]
  have done_ok: "executor_done i (Inr report_data) now s =
      release ((cache_report (ready_record report_data)
                 (cache_ttl (config (cache_manager s))) now s)
               \<lparr>tasks := (tasks (cache_report (ready_record report_data)
                 (cache_ttl (config (cache_manager s))) now s))[i := Finished]\<rparr>)"
    using i by (simp add: executor_done_def ready_record_def REPORT_SCHEMA_VERSION_def Let_def)
  have done_err: "executor_done i (Inl message) now s =
      release ((cache_report (error_record message) 300 now s)
               \<lparr>tasks := (tasks (cache_report (error_record message) 300 now s))
                  [i := Finished]\<rparr>)"
    using i by (simp add: executor_done_def error_record_def Let_def)
  show ?thesis
    using pos
    by (simp add: done_ok done_err ok err dec_ready dec_error del: decode.simps)
qed

theorem report_record_ttls_witness:
  "trace (executor_done 0 (Inl ''boom'') 10 (computing_server working_cache)) =
     trace (computing_server working_cache) @
       [Cache_set get_report_cache_key (error_record ''boom'') 300 (Inr True)] \<and>
   trace (executor_done 0 (Inr sample_report) 10 (computing_server working_cache)) =
     trace (computing_server working_cache) @
       [Cache_set get_report_cache_key (ready_record sample_report) 3600 (Inr True)] \<and>
   CacheManager_get (cache_manager
       (executor_done 0 (Inl ''boom'') 10 (computing_server working_cache)))
     get_report_cache_key 310 = Inr PNone \<and>
   CacheManager_get (cache_manager
       (executor_done 0 (Inr sample_report) 10 (computing_server working_cache)))
     get_report_cache_key 310 = Inr (ready_record sample_report)"
  using report_record_ttls [where i = 0 and s = "computing_server working_cache"
          and r = empty_redis and report_data = sample_report
          and j = "JObj [(''framework'', JStr ''FastAPI''), (''file_count'', JInt 18)]"
          and message = "''boom''" and now = 10 and later = 310]
  by (simp add: computing_server_def report_eval)

text \<open>
  C8 as stated fails when the standard TTL is configured below 300 seconds: with
  \<open>CACHE_TTL=60\<close>, 100 seconds after the write the error record is still served and
  the ready record has expired.
\<close>

theorem error_ttl_counterexample:
  "CacheManager_get (cache_manager
       (executor_done 0 (Inl ''boom'') 0 (computing_server short_ttl_cache)))
     get_report_cache_key 100 = Inr (error_record ''boom'') \<and>
   CacheManager_get (cache_manager
       (executor_done 0 (Inr sample_report) 0 (computing_server short_ttl_cache)))
     get_report_cache_key 100 = Inr PNone"
  by (simp add: computing_server_def report_eval)

end
